theory Spec2Isabelle
  imports Complex_Main
begin

section \<open>Strings\<close>

text \<open>
  A JavaScript string is a sequence of UTF-16 code units. The model covers the strings
  whose code units are all below 256 (ASCII and Latin-1): a \<^typ>\<open>char\<close> is the code unit of
  the same number. On these strings \<open>trim\<close> and \<open>toLowerCase\<close> below are the functions of
  the language: the white space and line terminators below 256 are the seven code units
  listed, and the letters with a lowercase form are A to Z and U+00C0 to U+00DE without
  the multiplication sign U+00D7, each 32 below its lowercase form.
\<close>

definition isWhiteSpace :: "char \<Rightarrow> bool" where
  "isWhiteSpace c =
     (c \<in> set [CHR 0x09, CHR 0x0A, CHR 0x0B, CHR 0x0C, CHR 0x0D, CHR 0x20, CHR 0xA0])"

definition trim :: "string \<Rightarrow> string" where
  "trim s = rev (dropWhile isWhiteSpace (rev (dropWhile isWhiteSpace s)))"

definition lowerUnit :: "char \<Rightarrow> char" where
  "lowerUnit c =
     (let n = (of_char c :: nat)
      in if (65 \<le> n \<and> n \<le> 90) \<or> (192 \<le> n \<and> n \<le> 222 \<and> n \<noteq> 215)
         then char_of (n + 32) else c)"

definition toLowerCase :: "string \<Rightarrow> string" where
  "toLowerCase s = map lowerUnit s"

section \<open>Numbers\<close>

text \<open>
  A Number is an IEEE 754 double, and every finite double is a rational. The product of
  two doubles is the double nearest to their exact product, a tie going to the double
  with the even mantissa. \<open>toDouble x\<close> is that double for the exact value \<open>x\<close>: the
  binade of \<open>x\<close> is the exponent \<open>e\<close> with \<open>2^e \<le> |x| < 2^(e+1)\<close>, and not less than -1022,
  where the subnormal numbers begin; the doubles of a binade are the multiples of
  \<open>2^(e-52)\<close>, the unit in the last place. Values beyond the largest double, which would
  round to infinity, do not occur in this program.
\<close>

function binadeUp :: "rat \<Rightarrow> int" where
  "binadeUp x = (if x < 2 then 0 else binadeUp (x / 2) + 1)"
  by pat_completeness auto
termination
proof (relation "measure (\<lambda>x. nat \<lfloor>x\<rfloor>)")
  show "wf (measure (\<lambda>x::rat. nat \<lfloor>x\<rfloor>))" by simp
next
  fix x :: rat
  assume "\<not> x < 2"
  then have "x / 2 \<le> x - 1" by simp
  then have "\<lfloor>x / 2\<rfloor> \<le> \<lfloor>x - 1\<rfloor>" by (rule floor_mono)
  moreover from \<open>\<not> x < 2\<close> have "2 \<le> \<lfloor>x\<rfloor>" by (simp add: le_floor_iff)
  ultimately show "(x / 2, x) \<in> measure (\<lambda>x. nat \<lfloor>x\<rfloor>)" by simp
qed

function binadeDown :: "int \<Rightarrow> rat \<Rightarrow> int" where
  "binadeDown e x = (if 1 \<le> x \<or> e \<le> - 1022 then e else binadeDown (e - 1) (2 * x))"
  by pat_completeness auto
termination
  by (relation "measure (\<lambda>(e, x). nat (e + 1022))") auto

definition binade :: "rat \<Rightarrow> int" where
  "binade x = (if 1 \<le> x then binadeUp x else binadeDown 0 x)"

definition ulp :: "rat \<Rightarrow> rat" where
  "ulp x = 2 powi (binade x - 52)"

definition roundHalfEven :: "rat \<Rightarrow> int" where
  "roundHalfEven q =
     (let f = \<lfloor>q\<rfloor>; d = q - of_int f
      in if d < 1 / 2 then f else if 1 / 2 < d then f + 1 else if even f then f else f + 1)"

definition toDouble :: "rat \<Rightarrow> rat" where
  "toDouble x =
     (if x = 0 then 0 else sgn x * (of_int (roundHalfEven (\<bar>x\<bar> / ulp \<bar>x\<bar>)) * ulp \<bar>x\<bar>))"

text \<open>A rational is a double when rounding leaves it as it is.\<close>

definition isDouble :: "rat \<Rightarrow> bool" where
  "isDouble x = (toDouble x = x)"

section \<open>The random source\<close>

text \<open>
  \<open>Math.random()\<close> reads the next number of a sequence that the environment supplies;
  the sequence is the state of the source, and a draw returns its head and leaves its
  tail. \<open>randomInt n c\<close> is the expression \<open>Math.floor(Math.random() * n) + c\<close>: the
  product is a product of doubles, so it is rounded before the floor is taken; the floor
  is a whole number below \<open>2^53\<close>, and adding \<open>c\<close> to it is exact. \<open>unitDraws\<close> says what the
  language promises of \<open>Math.random\<close>: every draw is a double, at least 0 and below 1.
\<close>

type_synonym rng = "nat \<Rightarrow> rat"

definition random :: "rng \<Rightarrow> rat \<times> rng" where
  "random g = (g 0, \<lambda>i. g (Suc i))"

definition randomInt :: "int \<Rightarrow> int \<Rightarrow> rng \<Rightarrow> int \<times> rng" where
  "randomInt n c g =
     (case random g of (r, g') \<Rightarrow> (\<lfloor>toDouble (r * of_int n)\<rfloor> + c, g'))"

definition unitDraws :: "rng \<Rightarrow> bool" where
  "unitDraws g = (\<forall>i. isDouble (g i) \<and> 0 \<le> g i \<and> g i < 1)"

section \<open>Weather data\<close>

text \<open>
  The object shapes the program builds. The fields \<open>description\<close> and \<open>icon\<close> of a forecast
  entry are named \<open>dayDescription\<close> and \<open>dayIcon\<close> here, the current conditions having
  fields of the same names.
\<close>

record current_conditions =
  city :: string
  country :: string
  temperature :: int
  feelsLike :: int
  description :: string
  humidity :: int
  windSpeed :: int
  pressure :: int
  visibility :: int
  uvIndex :: int
  cloudiness :: int
  icon :: string

record forecast_entry =
  day :: string
  high :: int
  low :: int
  dayDescription :: string
  dayIcon :: string

record weather_data =
  current :: current_conditions
  forecast :: "forecast_entry list"

subsection \<open>generateMockForecast\<close>

definition days :: "string list" where
  "days = [''Today'', ''Tomorrow'', ''Day 3'', ''Day 4'', ''Day 5'']"

definition descriptions :: "string list" where
  "descriptions = [''sunny'', ''partly cloudy'', ''cloudy'', ''light rain'', ''clear'']"

definition icons :: "string list" where
  "icons = [''fas fa-sun'', ''fas fa-cloud-sun'', ''fas fa-cloud'', ''fas fa-cloud-rain'',
            ''fas fa-sun'']"

text \<open>
  \<open>days.map((day, index) => ...)\<close>: the callback runs on the elements in order, so the
  draws of one entry (high, then low) come before those of the next.
\<close>

fun mockEntries :: "string list \<Rightarrow> nat \<Rightarrow> rng \<Rightarrow> forecast_entry list \<times> rng" where
  "mockEntries [] index g = ([], g)"
| "mockEntries (d # ds) index g =
     (case randomInt 15 20 g of (h, g1) \<Rightarrow>
      case randomInt 10 10 g1 of (l, g2) \<Rightarrow>
      case mockEntries ds (Suc index) g2 of (es, g3) \<Rightarrow>
        (\<lparr>day = d, high = h, low = l,
          dayDescription = descriptions ! (index mod length descriptions),
          dayIcon = icons ! (index mod length icons)\<rparr> # es, g3))"

definition generateMockForecast :: "rng \<Rightarrow> forecast_entry list \<times> rng" where
  "generateMockForecast g = mockEntries days 0 g"

subsection \<open>simulateWeatherAPI\<close>

definition newYorkCurrent :: current_conditions where
  "newYorkCurrent =
     \<lparr>city = ''New York'', country = ''US'', temperature = 22, feelsLike = 25,
      description = ''partly cloudy'', humidity = 65, windSpeed = 12, pressure = 1013,
      visibility = 10, uvIndex = 6, cloudiness = 40, icon = ''fas fa-cloud-sun''\<rparr>"

definition londonCurrent :: current_conditions where
  "londonCurrent =
     \<lparr>city = ''London'', country = ''UK'', temperature = 15, feelsLike = 13,
      description = ''light rain'', humidity = 80, windSpeed = 8, pressure = 1008,
      visibility = 8, uvIndex = 3, cloudiness = 75, icon = ''fas fa-cloud-rain''\<rparr>"

definition tokyoCurrent :: current_conditions where
  "tokyoCurrent =
     \<lparr>city = ''Tokyo'', country = ''JP'', temperature = 28, feelsLike = 32,
      description = ''sunny'', humidity = 55, windSpeed = 6, pressure = 1020,
      visibility = 15, uvIndex = 8, cloudiness = 10, icon = ''fas fa-sun''\<rparr>"

text \<open>
  The object literal \<open>cities\<close>: its own properties in source order, each forecast drawn
  when the literal is evaluated (New York, then London, then Tokyo).
\<close>

definition cities :: "rng \<Rightarrow> (string \<times> weather_data) list \<times> rng" where
  "cities g =
     (case generateMockForecast g of (f1, g1) \<Rightarrow>
      case generateMockForecast g1 of (f2, g2) \<Rightarrow>
      case generateMockForecast g2 of (f3, g3) \<Rightarrow>
        ([(''new york'', \<lparr>current = newYorkCurrent, forecast = f1\<rparr>),
          (''london'', \<lparr>current = londonCurrent, forecast = f2\<rparr>),
          (''tokyo'', \<lparr>current = tokyoCurrent, forecast = f3\<rparr>)], g3))"

text \<open>
  \<open>cities\<close> is an ordinary object, so \<open>cities[cityKey]\<close> is a property read: where the
  object has no own property of that name the read goes on to its prototype,
  \<open>Object.prototype\<close>, and only a name found on neither gives \<open>undefined\<close>.
  \<open>objectPrototypeKeys\<close> are the property names of \<open>Object.prototype\<close> in a browser; each
  holds a function, except \<open>__proto__\<close>, whose getter returns \<open>Object.prototype\<close> itself.
\<close>

definition objectPrototypeKeys :: "string list" where
  "objectPrototypeKeys =
     [''constructor'', ''__proto__'', ''hasOwnProperty'', ''isPrototypeOf'',
      ''propertyIsEnumerable'', ''toLocaleString'', ''toString'', ''valueOf'',
      ''__defineGetter__'', ''__defineSetter__'', ''__lookupGetter__'',
      ''__lookupSetter__'']"

datatype js_value =
    Undefined
  | WeatherData weather_data
  | Inherited string

definition getProperty :: "(string \<times> weather_data) list \<Rightarrow> string \<Rightarrow> js_value" where
  "getProperty obj key =
     (case map_of obj key of
        Some d \<Rightarrow> WeatherData d
      | None \<Rightarrow> if key \<in> set objectPrototypeKeys then Inherited key else Undefined)"

fun truthy :: "js_value \<Rightarrow> bool" where
  "truthy Undefined = False"
| "truthy (WeatherData d) = True"
| "truthy (Inherited k) = True"

text \<open>The body of \<open>simulateWeatherAPI\<close> after its delay; it has no statement that throws.\<close>

definition simulateWeatherAPI :: "string \<Rightarrow> rng \<Rightarrow> js_value \<times> rng" where
  "simulateWeatherAPI name g =
     (case cities g of (cs, g0) \<Rightarrow>
      let cityKey = toLowerCase name in
      if truthy (getProperty cs cityKey) then (getProperty cs cityKey, g0)
      else
        (case randomInt 30 5 g0 of (t, g1) \<Rightarrow>
         case randomInt 30 5 g1 of (fl, g2) \<Rightarrow>
         case randomInt 40 40 g2 of (hu, g3) \<Rightarrow>
         case randomInt 15 5 g3 of (ws, g4) \<Rightarrow>
         case randomInt 50 1000 g4 of (pr, g5) \<Rightarrow>
         case randomInt 10 5 g5 of (vi, g6) \<Rightarrow>
         case randomInt 10 1 g6 of (uv, g7) \<Rightarrow>
         case randomInt 60 20 g7 of (cl, g8) \<Rightarrow>
         case generateMockForecast g8 of (f, g9) \<Rightarrow>
           (WeatherData
              \<lparr>current =
                 \<lparr>city = name, country = ''Unknown'', temperature = t, feelsLike = fl,
                  description = ''clear sky'', humidity = hu, windSpeed = ws,
                  pressure = pr, visibility = vi, uvIndex = uv, cloudiness = cl,
                  icon = ''fas fa-sun''\<rparr>,
               forecast = f\<rparr>, g9)))"

subsection \<open>simulateWeatherAPIByCoords\<close>

definition simulateWeatherAPIByCoords :: "rat \<Rightarrow> rat \<Rightarrow> rng \<Rightarrow> js_value \<times> rng" where
  "simulateWeatherAPIByCoords lat lon g =
     (case generateMockForecast g of (f, g1) \<Rightarrow>
        (WeatherData
           \<lparr>current =
              \<lparr>city = ''Your Location'', country = '''', temperature = 20, feelsLike = 22,
               description = ''clear sky'', humidity = 60, windSpeed = 10, pressure = 1015,
               visibility = 12, uvIndex = 5, cloudiness = 20, icon = ''fas fa-sun''\<rparr>,
            forecast = f\<rparr>, g1))"

text \<open>
  \<open>weatherData.current\<close> and \<open>weatherData.forecast\<close>: a property read on the value the
  fetch resolved with. None of the objects that \<open>Object.prototype\<close> holds has a property
  of either name, so the read gives \<open>undefined\<close> there (\<open>None\<close>).
\<close>

fun currentOf :: "js_value \<Rightarrow> current_conditions option" where
  "currentOf (WeatherData d) = Some (current d)"
| "currentOf (Inherited k) = None"
| "currentOf Undefined = None"

fun forecastOf :: "js_value \<Rightarrow> forecast_entry list option" where
  "forecastOf (WeatherData d) = Some (forecast d)"
| "forecastOf (Inherited k) = None"
| "forecastOf Undefined = None"

section \<open>The page\<close>

text \<open>
  The elements the program binds or looks up by id; the page is taken to hold every one
  of them, so no lookup gives \<open>null\<close>. A \<open>hidden\<close> field says
  that the element's class list has the class \<open>hidden\<close>. A text element whose content is a
  fixed template around one value of the data holds that value (\<open>el_currentTemp\<close> is the
  number in front of the degree sign, \<open>el_humidity\<close> the number in front of the percent
  sign); \<open>el_cityName\<close>, \<open>el_weatherDate\<close>, \<open>el_weatherDescription\<close> and \<open>errorMessage\<close> hold
  the text itself. A child of \<open>forecastContainer\<close> is the item whose five fields fill the
  five places of the item template.
\<close>

record page =
  cityInput_value :: string
  loading_hidden :: bool
  error_hidden :: bool
  errorMessage :: string
  currentWeather_hidden :: bool
  forecast_hidden :: bool
  forecastContainer :: "forecast_entry list"
  el_cityName :: string
  el_weatherDate :: string
  el_currentTemp :: int
  el_feelsLike :: int
  el_weatherDescription :: string
  el_humidity :: int
  el_windSpeed :: int
  el_pressure :: int
  el_visibility :: int
  el_uvIndex :: int
  el_cloudiness :: int
  el_weatherIconMain :: string

definition showLoading :: "page \<Rightarrow> page" where
  "showLoading p =
     p\<lparr>loading_hidden := False, error_hidden := True, currentWeather_hidden := True,
       forecast_hidden := True\<rparr>"

definition hideLoading :: "page \<Rightarrow> page" where
  "hideLoading p = p\<lparr>loading_hidden := True\<rparr>"

definition showError :: "string \<Rightarrow> page \<Rightarrow> page" where
  "showError message p =
     p\<lparr>errorMessage := message, error_hidden := False, currentWeather_hidden := True,
       forecast_hidden := True\<rparr>"

datatype error = TypeError

text \<open>
  A statement sequence that may throw returns the page as it is when it ends, together
  with the exception if one left it. \<open>today\<close> is the text that
  \<open>new Date().toLocaleDateString(...)\<close> gives at the moment of the call.
  Reading \<open>data.city\<close> of \<open>undefined\<close> throws before anything is written.
\<close>

fun displayCurrentWeather ::
  "string \<Rightarrow> current_conditions option \<Rightarrow> page \<Rightarrow> error option \<times> page" where
  "displayCurrentWeather today None p = (Some TypeError, p)"
| "displayCurrentWeather today (Some data) p =
     (None,
      p\<lparr>el_cityName := city data @ (if country data \<noteq> [] then '', '' @ country data else []),
        el_weatherDate := today,
        el_currentTemp := temperature data,
        el_feelsLike := feelsLike data,
        el_weatherDescription := description data,
        el_humidity := humidity data,
        el_windSpeed := windSpeed data,
        el_pressure := pressure data,
        el_visibility := visibility data,
        el_uvIndex := uvIndex data,
        el_cloudiness := cloudiness data,
        el_weatherIconMain := icon data,
        currentWeather_hidden := False\<rparr>)"

definition appendChild :: "page \<Rightarrow> forecast_entry \<Rightarrow> page" where
  "appendChild p item = p\<lparr>forecastContainer := forecastContainer p @ [item]\<rparr>"

text \<open>
  The container is emptied first; \<open>forecastData.forEach\<close> on \<open>undefined\<close> throws after
  that, with the container left empty.
\<close>

fun displayForecast :: "forecast_entry list option \<Rightarrow> page \<Rightarrow> error option \<times> page" where
  "displayForecast None p = (Some TypeError, p\<lparr>forecastContainer := []\<rparr>)"
| "displayForecast (Some forecastData) p =
     (None, (foldl appendChild (p\<lparr>forecastContainer := []\<rparr>) forecastData)
              \<lparr>forecast_hidden := False\<rparr>)"

section \<open>The operations\<close>

text \<open>
  An asynchronous operation runs in two parts. The first part runs when the operation
  is called, up to its first \<open>await\<close> or callback registration, and leaves a pending
  request behind (\<open>None\<close> when it has finished without one). The second part runs when
  the request settles. A fetch is pending from the call of \<open>simulateWeatherAPI\<close> or
  \<open>simulateWeatherAPIByCoords\<close>, which starts the delay, until the delay has passed.
\<close>

datatype pending =
    NameFetch string
  | CoordsFetch rat rat
  | PositionRequest

text \<open>The \<open>try\<close> block of both fetch operations, and its \<open>catch\<close> with the given message.\<close>

definition tryDisplay :: "string \<Rightarrow> string \<Rightarrow> js_value \<Rightarrow> page \<Rightarrow> page" where
  "tryDisplay message today weatherData p =
     (case displayCurrentWeather today (currentOf weatherData) p of
        (Some e, p1) \<Rightarrow> showError message (hideLoading p1)
      | (None, p1) \<Rightarrow>
          (case displayForecast (forecastOf weatherData) p1 of
             (Some e, p2) \<Rightarrow> showError message (hideLoading p2)
           | (None, p2) \<Rightarrow> hideLoading p2))"

definition getWeatherData :: "string \<Rightarrow> page \<Rightarrow> page \<times> pending option" where
  "getWeatherData name p = (showLoading p, Some (NameFetch name))"

definition getWeatherData_settle :: "string \<Rightarrow> string \<Rightarrow> rng \<Rightarrow> page \<Rightarrow> page \<times> rng" where
  "getWeatherData_settle today name g p =
     (case simulateWeatherAPI name g of (weatherData, g') \<Rightarrow>
        (tryDisplay ''City not found. Please check the spelling and try again.''
           today weatherData p, g'))"

definition getWeatherByCoords :: "rat \<Rightarrow> rat \<Rightarrow> page \<Rightarrow> page \<times> pending option" where
  "getWeatherByCoords lat lon p = (showLoading p, Some (CoordsFetch lat lon))"

definition getWeatherByCoords_settle ::
  "string \<Rightarrow> rat \<Rightarrow> rat \<Rightarrow> rng \<Rightarrow> page \<Rightarrow> page \<times> rng" where
  "getWeatherByCoords_settle today lat lon g p =
     (case simulateWeatherAPIByCoords lat lon g of (weatherData, g') \<Rightarrow>
        (tryDisplay ''Unable to fetch weather data for your location.''
           today weatherData p, g'))"

definition loadDefaultWeather :: "page \<Rightarrow> page \<times> pending option" where
  "loadDefaultWeather p = getWeatherData ''New York'' p"

definition searchWeather :: "page \<Rightarrow> page \<times> pending option" where
  "searchWeather p =
     (let name = trim (cityInput_value p)
      in if name = [] then (showError ''Please enter a city name'' p, None)
         else getWeatherData name p)"

text \<open>\<open>geolocation\<close> says whether \<open>navigator.geolocation\<close> is there.\<close>

definition getCurrentLocation :: "bool \<Rightarrow> page \<Rightarrow> page \<times> pending option" where
  "getCurrentLocation geolocation p =
     (if \<not> geolocation
      then (showError ''Geolocation is not supported by this browser'' p, None)
      else (showLoading p, Some PositionRequest))"

datatype position = Position rat rat | PositionError

fun getCurrentLocation_settle :: "position \<Rightarrow> page \<Rightarrow> page \<times> pending option" where
  "getCurrentLocation_settle (Position latitude longitude) p =
     getWeatherByCoords latitude longitude p"
| "getCurrentLocation_settle PositionError p =
     (showError ''Unable to get your location. Please search manually.'' (hideLoading p),
      None)"

text \<open>
  One request settling: what the page and the random source are afterwards, and what is
  pending then. The position of a \<open>PositionRequest\<close> is the answer of the platform.
\<close>

fun settle ::
  "string \<Rightarrow> position \<Rightarrow> pending \<Rightarrow> rng \<Rightarrow> page \<Rightarrow> (page \<times> rng) \<times> pending option" where
  "settle today pos (NameFetch name) g p = (getWeatherData_settle today name g p, None)"
| "settle today pos (CoordsFetch lat lon) g p =
     (getWeatherByCoords_settle today lat lon g p, None)"
| "settle today pos PositionRequest g p =
     (case getCurrentLocation_settle pos p of (p', r) \<Rightarrow> ((p', g), r))"

text \<open>
  A name search from the click to the end, with nothing else running in between:
  the page and the random source afterwards. (A fetch by name does not read the
  position that \<open>settle\<close> is given.)
\<close>

definition searchByName :: "string \<Rightarrow> rng \<Rightarrow> page \<Rightarrow> page \<times> rng" where
  "searchByName today g p =
     (case searchWeather p of
        (p', None) \<Rightarrow> (p', g)
      | (p', Some r) \<Rightarrow> fst (settle today PositionError r g p'))"

text \<open>The same for a location search whose position request succeeds or fails.\<close>

definition searchByLocation :: "string \<Rightarrow> bool \<Rightarrow> position \<Rightarrow> rng \<Rightarrow> page \<Rightarrow> page \<times> rng" where
  "searchByLocation today geolocation pos g p =
     (case getCurrentLocation geolocation p of
        (p1, None) \<Rightarrow> (p1, g)
      | (p1, Some r1) \<Rightarrow>
          (case settle today pos r1 g p1 of
             (pg, None) \<Rightarrow> pg
           | ((p2, g2), Some r2) \<Rightarrow> fst (settle today pos r2 g2 p2)))"

section \<open>Example inputs\<close>

text \<open>
  A page before the first load, with every region hidden and every text empty, and a
  random source that goes round the draws 0, 1/4, 1/2 and 3/4.
\<close>

definition examplePage :: page where
  "examplePage =
     \<lparr>cityInput_value = [], loading_hidden = True, error_hidden = True, errorMessage = [],
      currentWeather_hidden = True, forecast_hidden = True, forecastContainer = [],
      el_cityName = [], el_weatherDate = [], el_currentTemp = 0, el_feelsLike = 0,
      el_weatherDescription = [], el_humidity = 0, el_windSpeed = 0, el_pressure = 0,
      el_visibility = 0, el_uvIndex = 0, el_cloudiness = 0, el_weatherIconMain = []\<rparr>"

definition exampleDraws :: rng where
  "exampleDraws i = of_nat (i mod 4) / 4"

text \<open>
  A source whose every draw is a double just below 8/15: its product with 15 is
  \<open>8 - 2^-53\<close> exactly and rounds to 8.
\<close>

definition roundingDraws :: rng where
  "roundingDraws i = 4803839602528529 / 2 ^ 53"

text \<open>
  The page of a search for Paris while its fetch is pending, and the same page after a
  search with an empty input has run in the meantime.
\<close>

definition parisPending :: page where
  "parisPending = fst (searchWeather (examplePage\<lparr>cityInput_value := ''Paris''\<rparr>))"

definition blankWhilePending :: page where
  "blankWhilePending = fst (searchWeather (parisPending\<lparr>cityInput_value := []\<rparr>))"

section \<open>Auxiliary facts\<close>

subsection \<open>Rounding to a double\<close>

declare binadeUp.simps [simp del] binadeDown.simps [simp del]

lemma binadeUp_spec:
  "1 \<le> x \<Longrightarrow> 0 \<le> binadeUp x \<and> 2 powi binadeUp x \<le> x \<and> x < 2 powi (binadeUp x + 1)"
proof (induction x rule: binadeUp.induct)
  case (1 x)
  show ?case
  proof (cases "x < 2")
    case True
    with "1.prems" show ?thesis by (simp add: binadeUp.simps [of x])
  next
    case False
    then have h: "1 \<le> x / 2" by simp
    from "1.IH" [OF False h]
    have ih: "0 \<le> binadeUp (x / 2)" "2 powi binadeUp (x / 2) \<le> x / 2"
      "x / 2 < 2 powi (binadeUp (x / 2) + 1)" by simp_all
    have e: "binadeUp x = binadeUp (x / 2) + 1" using False by (simp add: binadeUp.simps [of x])
    have p: "(2::rat) powi (k + 1) = 2 * 2 powi k" for k
      by (simp add: power_int_add)
    from ih(2) have a: "2 * 2 powi binadeUp (x / 2) \<le> x" by simp
    from ih(3) have b: "x < 2 * 2 powi (binadeUp (x / 2) + 1)" by simp
    from ih(1) a b show ?thesis unfolding e p by simp
  qed
qed

lemma binadeDown_spec:
  "0 < x \<Longrightarrow> x < 2 \<Longrightarrow> - 1022 \<le> e \<Longrightarrow>
     - 1022 \<le> binadeDown e x \<and> binadeDown e x \<le> e \<and>
     x * 2 powi e < 2 powi (binadeDown e x + 1) \<and>
     (2 powi binadeDown e x \<le> x * 2 powi e \<or> binadeDown e x = - 1022)"
proof (induction e x rule: binadeDown.induct)
  case (1 e x)
  have p: "(2::rat) powi (k + 1) = 2 * 2 powi k" for k
    by (simp add: power_int_add)
  show ?case
  proof (cases "1 \<le> x \<or> e \<le> - 1022")
    case True
    then have e: "binadeDown e x = e" by (simp add: binadeDown.simps [of e x])
    have pos: "(0::rat) < 2 powi e" by simp
    from "1.prems"(2) pos have a: "x * 2 powi e < 2 * 2 powi e" by simp
    from True "1.prems"(3) have "1 \<le> x \<or> e = - 1022" by auto
    then have b: "2 powi e \<le> x * 2 powi e \<or> e = - 1022"
      using pos by auto
    from a b "1.prems"(3) show ?thesis unfolding e by (simp add: p)
  next
    case False
    then have e: "binadeDown e x = binadeDown (e - 1) (2 * x)"
      by (simp add: binadeDown.simps [of e x])
    from False "1.prems" have pre: "0 < 2 * x" "2 * x < 2" "- 1022 \<le> e - 1" by simp_all
    have q: "2 * x * 2 powi (e - 1) = x * 2 powi e"
      using p [of "e - 1"] by simp
    from "1.IH" [OF False pre] show ?thesis unfolding e q by simp
  qed
qed

lemma binade_spec:
  assumes "0 < x"
  shows "- 1022 \<le> binade x \<and> x < 2 powi (binade x + 1) \<and>
         (2 powi binade x \<le> x \<or> binade x = - 1022)"
proof (cases "1 \<le> x")
  case True
  from binadeUp_spec [OF True] True show ?thesis by (simp add: binade_def)
next
  case False
  then have "x < 2" by simp
  from binadeDown_spec [OF assms this, of 0] False show ?thesis by (simp add: binade_def)
qed

lemma roundHalfEven_nonneg: "0 \<le> q \<Longrightarrow> 0 \<le> roundHalfEven q"
  by (auto simp: roundHalfEven_def Let_def)

lemma roundHalfEven_less:
  assumes "q < of_int N - 1 / 2"
  shows "roundHalfEven q < N"
proof -
  have f: "of_int \<lfloor>q\<rfloor> \<le> q" by simp
  from assms f have "(of_int \<lfloor>q\<rfloor> :: rat) < of_int N" by linarith
  then have a: "\<lfloor>q\<rfloor> < N" by simp
  show ?thesis
  proof (cases "q - of_int \<lfloor>q\<rfloor> < 1 / 2")
    case True
    with a show ?thesis by (simp add: roundHalfEven_def Let_def)
  next
    case False
    with assms have "(of_int \<lfloor>q\<rfloor> :: rat) < of_int N - 1" by linarith
    then have "(of_int (\<lfloor>q\<rfloor> + 1) :: rat) < of_int N" by simp
    then have "\<lfloor>q\<rfloor> + 1 < N" by (simp only: of_int_less_iff)
    with a show ?thesis by (auto simp: roundHalfEven_def Let_def)
  qed
qed

lemma ulp_pos: "0 < ulp x"
  by (simp add: ulp_def)

lemma toDouble_nonneg: "0 \<le> x \<Longrightarrow> 0 \<le> toDouble x"
  by (auto simp: toDouble_def ulp_pos less_imp_le roundHalfEven_nonneg sgn_if
      intro!: mult_nonneg_nonneg)

text \<open>The product of a double below 1 and a whole number n rounds to a double below n.\<close>

lemma toDouble_below:
  assumes x0: "0 \<le> x" and n0: "0 < n" and nb: "n \<le> 2 ^ 52"
    and xb: "x \<le> of_int n - of_int n / 2 ^ 53"
  shows "toDouble x < of_int n"
proof (cases "x = 0")
  case True
  with n0 show ?thesis by (simp add: toDouble_def)
next
  case False
  with x0 have xp: "0 < x" by simp
  let ?E = "binade x"
  let ?u = "ulp x"
  from binade_spec [OF xp] have lo: "- 1022 \<le> ?E" and up: "x < 2 powi (?E + 1)"
    and nrm: "2 powi ?E \<le> x \<or> ?E = - 1022" by simp_all
  have "0 < (of_int n :: rat) / 2 ^ 53" using n0 by simp
  with xb have xn: "x < of_int n" by linarith
  have En: "(2::rat) powi ?E < of_int n"
  proof -
    from nrm show ?thesis
    proof
      assume "2 powi ?E \<le> x"
      with xn show ?thesis by simp
    next
      assume e: "?E = - 1022"
      have "(2::rat) powi (- 1022) \<le> 2 powi 0" by (rule power_int_increasing) simp_all
      then have "(2::rat) powi (- 1022) \<le> 1" by simp
      moreover from n0 have "(1::rat) \<le> of_int n" by simp
      moreover have "(2::rat) powi (- 1022) \<noteq> 1"
        by (simp add: power_int_minus)
      ultimately show ?thesis unfolding e by linarith
    qed
  qed
  have E52: "?E \<le> 52"
  proof (rule ccontr)
    assume "\<not> ?E \<le> 52"
    then have "52 \<le> ?E" by simp
    then have "(2::rat) powi 52 \<le> 2 powi ?E" by (intro power_int_increasing) simp_all
    moreover from nb have "(of_int n :: rat) \<le> of_int (2 ^ 52)"
      by (simp only: of_int_le_iff)
    then have "(of_int n :: rat) \<le> 2 ^ 52" by simp
    moreover have "(2::rat) powi 52 = 2 ^ 52" by simp
    ultimately show False using En by linarith
  qed
  define t where "t = nat (52 - ?E)"
  have u: "?u = 1 / 2 ^ t"
  proof -
    have "?u = 2 powi (- int t)" using E52 by (simp add: ulp_def t_def)
    then show ?thesis by (simp add: power_int_minus_divide)
  qed
  define N where "N = n * 2 ^ t"
  have Nu: "of_int N * ?u = (of_int n :: rat)" by (simp add: N_def u)
  have half: "(1::rat) / 2 < of_int n / 2 ^ 53 / ?u"
  proof -
    have "(2::rat) powi ?E = 2 powi (52 - int t)" using E52 by (simp add: t_def)
    also have "\<dots> = 2 ^ 52 / 2 ^ t" by (simp add: power_int_diff)
    finally have "(2::rat) ^ 52 / 2 ^ t < of_int n" using En by simp
    then have "(2::rat) ^ 52 < of_int n * 2 ^ t" by (simp add: divide_less_eq)
    then have "(2::rat) ^ 52 / 2 ^ 53 < of_int n * 2 ^ t / 2 ^ 53"
      by (simp add: divide_strict_right_mono)
    then show ?thesis by (simp add: u)
  qed
  have q: "x / ?u < of_int N - 1 / 2"
  proof -
    have "x / ?u \<le> (of_int n - of_int n / 2 ^ 53) / ?u"
      by (rule divide_right_mono [OF xb less_imp_le [OF ulp_pos]])
    also have "\<dots> = of_int N - of_int n / 2 ^ 53 / ?u"
      by (simp add: diff_divide_distrib N_def u)
    finally show ?thesis using half by linarith
  qed
  from roundHalfEven_less [OF q] have "roundHalfEven (x / ?u) \<le> N - 1" by simp
  then have "(of_int (roundHalfEven (x / ?u)) :: rat) \<le> of_int (N - 1)"
    by (simp only: of_int_le_iff)
  then have "of_int (roundHalfEven (x / ?u)) * ?u \<le> of_int (N - 1) * ?u"
    using ulp_pos [of x] by (simp add: mult_right_mono less_imp_le)
  also have "\<dots> = of_int n - ?u" using Nu by (simp add: left_diff_distrib)
  also have "\<dots> < of_int n" using ulp_pos [of x] by simp
  finally show ?thesis using xp by (simp add: toDouble_def)
qed

text \<open>The largest double below 1 is \<open>1 - 2^-53\<close>.\<close>

lemma double_below_one:
  assumes r0: "0 \<le> r" and r1: "r < 1" and d: "toDouble r = r"
  shows "r \<le> 1 - 1 / 2 ^ 53"
proof (cases "r = 0")
  case True
  then show ?thesis by simp
next
  case False
  with r0 have rp: "0 < r" by simp
  let ?E = "binade r"
  let ?u = "ulp r"
  from binade_spec [OF rp] have up: "r < 2 powi (?E + 1)"
    and nrm: "2 powi ?E \<le> r \<or> ?E = - 1022" by simp_all
  have Eneg: "?E \<le> - 1"
  proof (rule ccontr)
    assume "\<not> ?E \<le> - 1"
    then have e0: "0 \<le> ?E" by simp
    then have "(1::rat) \<le> 2 powi ?E" by (intro one_le_power_int) simp_all
    moreover from nrm e0 have "2 powi ?E \<le> r" by auto
    ultimately show False using r1 by linarith
  qed
  define k where "k = roundHalfEven (r / ?u)"
  from d rp have rk: "r = of_int k * ?u" by (simp add: toDouble_def k_def)
  have pw: "(2::rat) powi (?E + 1) = 2 ^ 53 * ?u"
  proof -
    have eq: "?E + 1 = 53 + (?E - 52)" by simp
    have "(2::rat) powi (?E + 1) = 2 powi (53 + (?E - 52))" by (simp only: eq)
    also have "\<dots> = 2 powi 53 * 2 powi (?E - 52)" by (rule power_int_add) simp
    finally show ?thesis by (simp add: ulp_def)
  qed
  from up rk pw have "of_int k * ?u < 2 ^ 53 * ?u" by simp
  then have "(of_int k :: rat) < 2 ^ 53" using ulp_pos [of r] by simp
  then have "(of_int k :: rat) < of_int (2 ^ 53)" by simp
  then have "k < 2 ^ 53" by (simp only: of_int_less_iff)
  then have "k \<le> 2 ^ 53 - 1" by simp
  then have "(of_int k :: rat) \<le> of_int (2 ^ 53 - 1)" by (simp only: of_int_le_iff)
  then have "of_int k * ?u \<le> (2 ^ 53 - 1) * ?u"
    using ulp_pos [of r] by (simp add: mult_right_mono less_imp_le)
  also have "\<dots> = 2 ^ 53 * ?u * (1 - 1 / 2 ^ 53)"
    by (simp add: algebra_simps)
  also have "\<dots> = 2 powi (?E + 1) * (1 - 1 / 2 ^ 53)"
    by (simp only: pw)
  also have "\<dots> \<le> 1 * (1 - 1 / 2 ^ 53)"
  proof (rule mult_right_mono)
    have "(2::rat) powi (?E + 1) \<le> 2 powi 0"
      using Eneg by (intro power_int_increasing) simp_all
    then show "(2::rat) powi (?E + 1) \<le> 1" by simp
  qed simp
  finally show ?thesis using rk by simp
qed

subsection \<open>Strings, draws and fetches\<close>

lemma dropWhile_all_iff: "(\<forall>x\<in>set (dropWhile P xs). P x) \<longleftrightarrow> (\<forall>x\<in>set xs. P x)"
  by (induction xs) auto

lemma trim_empty_iff: "trim s = [] \<longleftrightarrow> (\<forall>c\<in>set s. isWhiteSpace c)"
  by (simp add: trim_def dropWhile_eq_Nil_conv dropWhile_all_iff)

lemma unitDraws_random: "unitDraws g \<Longrightarrow> unitDraws (snd (random g))"
  by (simp add: unitDraws_def random_def)

lemma random_unit:
  "unitDraws g \<Longrightarrow>
     toDouble (fst (random g)) = fst (random g) \<and> 0 \<le> fst (random g) \<and> fst (random g) < 1"
  by (simp add: unitDraws_def isDouble_def random_def)

lemma randomInt_snd: "snd (randomInt n c g) = snd (random g)"
  by (simp add: randomInt_def split_def)

lemma randomInt_bounds:
  assumes "unitDraws g" and "0 < n" and "n \<le> 2 ^ 52"
  shows "c \<le> fst (randomInt n c g) \<and> fst (randomInt n c g) < c + n"
proof -
  obtain r g' where rg: "random g = (r, g')" by (cases "random g")
  with random_unit [OF assms(1)] have r: "toDouble r = r" "0 \<le> r" "r < 1" by simp_all
  from r have top: "r \<le> 1 - 1 / 2 ^ 53" by (intro double_below_one)
  have n0: "(0::rat) \<le> of_int n" using assms(2) by simp
  from r(2) n0 have x0: "0 \<le> r * of_int n" by (rule mult_nonneg_nonneg)
  from top n0 have "r * of_int n \<le> (1 - 1 / 2 ^ 53) * of_int n" by (rule mult_right_mono)
  also have "\<dots> = of_int n - of_int n / 2 ^ 53" by (simp add: left_diff_distrib)
  finally have xb: "r * of_int n \<le> of_int n - of_int n / 2 ^ 53" .
  from toDouble_nonneg [OF x0] have lo: "0 \<le> \<lfloor>toDouble (r * of_int n)\<rfloor>" by simp
  from toDouble_below [OF x0 assms(2) assms(3) xb]
  have hi: "\<lfloor>toDouble (r * of_int n)\<rfloor> < n" by (simp add: floor_less_iff)
  from lo hi show ?thesis by (simp add: randomInt_def rg)
qed

lemma unitDraws_randomInt: "unitDraws g \<Longrightarrow> unitDraws (snd (randomInt n c g))"
  by (simp add: randomInt_snd unitDraws_random)

lemma unitDraws_exampleDraws: "unitDraws exampleDraws"
proof -
  have d: "isDouble 0" "isDouble (1 / 4)" "isDouble (2 / 4)" "isDouble (3 / 4)"
    by code_simp+
  have "isDouble (exampleDraws i) \<and> 0 \<le> exampleDraws i \<and> exampleDraws i < 1" for i
  proof -
    have "i mod 4 = 0 \<or> i mod 4 = 1 \<or> i mod 4 = 2 \<or> i mod 4 = 3" by arith
    with d show ?thesis by (auto simp: exampleDraws_def)
  qed
  then show ?thesis by (simp add: unitDraws_def)
qed

lemma unitDraws_roundingDraws: "unitDraws roundingDraws"
proof -
  have "isDouble (4803839602528529 / 2 ^ 53)" by code_simp
  then show ?thesis by (simp add: unitDraws_def roundingDraws_def)
qed

lemma mockEntries_days: "map day (fst (mockEntries ds index g)) = ds"
  by (induction ds arbitrary: index g) (simp_all add: split_def)

lemma unitDraws_mockEntries: "unitDraws g \<Longrightarrow> unitDraws (snd (mockEntries ds index g))"
  by (induction ds arbitrary: index g) (simp_all add: split_def unitDraws_randomInt)

lemma mockEntries_bounds:
  "unitDraws g \<Longrightarrow> e \<in> set (fst (mockEntries ds index g)) \<Longrightarrow>
     20 \<le> high e \<and> high e \<le> 34 \<and> 10 \<le> low e \<and> low e \<le> 19"
proof (induction ds arbitrary: index g)
  case Nil
  then show ?case by simp
next
  case (Cons d ds)
  let ?g1 = "snd (randomInt 15 20 g)"
  let ?g2 = "snd (randomInt 10 10 ?g1)"
  have u1: "unitDraws ?g1" using Cons.prems(1) by (rule unitDraws_randomInt)
  have u2: "unitDraws ?g2" using u1 by (rule unitDraws_randomInt)
  have h: "20 \<le> fst (randomInt 15 20 g) \<and> fst (randomInt 15 20 g) < 20 + 15"
    using Cons.prems(1) by (intro randomInt_bounds) simp_all
  have l: "10 \<le> fst (randomInt 10 10 ?g1) \<and> fst (randomInt 10 10 ?g1) < 10 + 10"
    using u1 by (intro randomInt_bounds) simp_all
  from Cons.prems(2) consider
      "high e = fst (randomInt 15 20 g) \<and> low e = fst (randomInt 10 10 ?g1)"
    | "e \<in> set (fst (mockEntries ds (Suc index) ?g2))"
    by (auto simp: split_def)
  then show ?case
  proof cases
    case 1
    with h l show ?thesis by simp
  next
    case 2
    with Cons.IH [OF u2] show ?thesis by blast
  qed
qed

lemma foldl_appendChild:
  "foldl appendChild p fs = p\<lparr>forecastContainer := forecastContainer p @ fs\<rparr>"
  by (induction fs arbitrary: p) (simp_all add: appendChild_def)

lemma generateMockForecast_days: "map day (fst (generateMockForecast g)) = days"
  by (simp add: generateMockForecast_def mockEntries_days)

lemma lower_LONDON: "toLowerCase ''LONDON'' = ''london''"
  by code_simp

lemma lower_London: "toLowerCase ''London'' = ''london''"
  by code_simp

lemma lower_london: "toLowerCase ''london'' = ''london''"
  by code_simp

lemma lower_constructor: "toLowerCase ''constructor'' = ''constructor''"
  by code_simp

lemma map_of_cities:
  "map_of (fst (cities g)) key =
     (if key = ''new york''
      then Some \<lparr>current = newYorkCurrent, forecast = fst (generateMockForecast g)\<rparr>
      else if key = ''london''
      then Some \<lparr>current = londonCurrent,
                 forecast = fst (generateMockForecast (snd (generateMockForecast g)))\<rparr>
      else if key = ''tokyo''
      then Some \<lparr>current = tokyoCurrent,
                 forecast = fst (generateMockForecast (snd (generateMockForecast
                   (snd (generateMockForecast g)))))\<rparr>
      else None)"
  by (simp add: cities_def split_def)

lemma simulateWeatherAPI_london:
  "toLowerCase name = ''london'' \<Longrightarrow>
     simulateWeatherAPI name g =
       (WeatherData \<lparr>current = londonCurrent,
                     forecast = fst (generateMockForecast (snd (generateMockForecast g)))\<rparr>,
        snd (cities g))"
  by (simp add: simulateWeatherAPI_def split_def getProperty_def map_of_cities)

lemma simulateWeatherAPI_inherited:
  "toLowerCase name \<in> set objectPrototypeKeys \<Longrightarrow>
     simulateWeatherAPI name g = (Inherited (toLowerCase name), snd (cities g))"
  by (auto simp: simulateWeatherAPI_def split_def getProperty_def map_of_cities
      objectPrototypeKeys_def)

lemma forecastOf_simulateWeatherAPI:
  "forecastOf (fst (simulateWeatherAPI name g)) = Some f \<Longrightarrow> map day f = days"
  by (auto simp: simulateWeatherAPI_def split_def getProperty_def map_of_cities Let_def
      generateMockForecast_days split: if_splits)

lemma simulateWeatherAPIByCoords_eq:
  "simulateWeatherAPIByCoords lat lon g =
     (WeatherData
        \<lparr>current =
           \<lparr>city = ''Your Location'', country = '''', temperature = 20, feelsLike = 22,
            description = ''clear sky'', humidity = 60, windSpeed = 10, pressure = 1015,
            visibility = 12, uvIndex = 5, cloudiness = 20, icon = ''fas fa-sun''\<rparr>,
         forecast = fst (generateMockForecast g)\<rparr>, snd (generateMockForecast g))"
  by (simp add: simulateWeatherAPIByCoords_def split_def)

lemma unitDraws_generateMockForecast:
  "unitDraws g \<Longrightarrow> unitDraws (snd (generateMockForecast g))"
  by (simp add: generateMockForecast_def unitDraws_mockEntries)

lemma unitDraws_cities: "unitDraws g \<Longrightarrow> unitDraws (snd (cities g))"
  by (simp add: cities_def split_def unitDraws_generateMockForecast)

lemma generateMockForecast_bounds:
  "unitDraws g \<Longrightarrow> e \<in> set (fst (generateMockForecast g)) \<Longrightarrow>
     20 \<le> high e \<and> high e \<le> 34 \<and> 10 \<le> low e \<and> low e \<le> 19"
  unfolding generateMockForecast_def by (rule mockEntries_bounds)

lemma unitDraws_fallback:
  "unitDraws g \<Longrightarrow>
     unitDraws (snd (randomInt 60 20 (snd (randomInt 10 1 (snd (randomInt 10 5
       (snd (randomInt 50 1000 (snd (randomInt 15 5 (snd (randomInt 40 40
         (snd (randomInt 30 5 (snd (randomInt 30 5 g))))))))))))))))"
  by (intro unitDraws_randomInt)

lemma forecastOf_simulateWeatherAPI_bounds:
  assumes "unitDraws g" and "forecastOf (fst (simulateWeatherAPI name g)) = Some f"
    and "e \<in> set f"
  shows "20 \<le> high e \<and> high e \<le> 34 \<and> 10 \<le> low e \<and> low e \<le> 19"
proof -
  let ?g1 = "snd (generateMockForecast g)"
  let ?g2 = "snd (generateMockForecast ?g1)"
  let ?g3 = "snd (generateMockForecast ?g2)"
  let ?g8 = "snd (randomInt 60 20 (snd (randomInt 10 1 (snd (randomInt 10 5
       (snd (randomInt 50 1000 (snd (randomInt 15 5 (snd (randomInt 40 40
         (snd (randomInt 30 5 (snd (randomInt 30 5 ?g3)))))))))))))))"
  have u1: "unitDraws ?g1" using assms(1) by (rule unitDraws_generateMockForecast)
  have u2: "unitDraws ?g2" using u1 by (rule unitDraws_generateMockForecast)
  have u3: "unitDraws ?g3" using u2 by (rule unitDraws_generateMockForecast)
  have u8: "unitDraws ?g8" using u3 by (rule unitDraws_fallback)
  have g3: "snd (cities g) = ?g3" by (simp add: cities_def split_def)
  from assms(2) have "f = fst (generateMockForecast g) \<or> f = fst (generateMockForecast ?g1) \<or>
      f = fst (generateMockForecast ?g2) \<or> f = fst (generateMockForecast ?g8)"
    by (auto simp: simulateWeatherAPI_def split_def Let_def getProperty_def map_of_cities g3
        split: if_splits)
  with assms(3) assms(1) u1 u2 u8 show ?thesis
    by (auto dest: generateMockForecast_bounds)
qed

lemma lower___proto__: "toLowerCase ''__proto__'' = ''__proto__''"
  by code_simp

lemma trim_constructor: "trim ''constructor'' = ''constructor''"
  by (simp add: trim_def isWhiteSpace_def)

lemma lowerUnit_not_upper:
  "\<not> (65 \<le> (of_char (lowerUnit c) :: nat) \<and> (of_char (lowerUnit c) :: nat) \<le> 90)"
proof -
  have "(of_char c + 32 :: nat) mod 256 = of_char c + 32" if "(of_char c :: nat) \<le> 222"
    using that by simp
  then show ?thesis
    by (auto simp: lowerUnit_def Let_def)
qed

lemma toLowerCase_no_upper:
  assumes "toLowerCase name = k" and "c \<in> set k"
  shows "\<not> (65 \<le> (of_char c :: nat) \<and> (of_char c :: nat) \<le> 90)"
proof -
  from assms obtain d where "c = lowerUnit d"
    by (auto simp: toLowerCase_def)
  then show ?thesis by (simp only: lowerUnit_not_upper not_False_eq_True)
qed

lemma inherited_keys_reachable:
  "toLowerCase name \<in> set objectPrototypeKeys \<longleftrightarrow>
     toLowerCase name = ''constructor'' \<or> toLowerCase name = ''__proto__''"
proof -
  have O: "toLowerCase name = k \<Longrightarrow> CHR ''O'' \<in> set k \<Longrightarrow> False" for k
    using toLowerCase_no_upper [of name k "CHR ''O''"] by simp
  have E: "toLowerCase name = k \<Longrightarrow> CHR ''E'' \<in> set k \<Longrightarrow> False" for k
    using toLowerCase_no_upper [of name k "CHR ''E''"] by simp
  have S: "toLowerCase name = k \<Longrightarrow> CHR ''S'' \<in> set k \<Longrightarrow> False" for k
    using toLowerCase_no_upper [of name k "CHR ''S''"] by simp
  have G: "toLowerCase name = k \<Longrightarrow> CHR ''G'' \<in> set k \<Longrightarrow> False" for k
    using toLowerCase_no_upper [of name k "CHR ''G''"] by simp
  have a: "toLowerCase name \<noteq> ''hasOwnProperty''" using O by fastforce
  have b: "toLowerCase name \<noteq> ''isPrototypeOf''" using O by fastforce
  have c: "toLowerCase name \<noteq> ''propertyIsEnumerable''" using E by fastforce
  have d: "toLowerCase name \<noteq> ''toLocaleString''" using S by fastforce
  have e: "toLowerCase name \<noteq> ''toString''" using S by fastforce
  have f: "toLowerCase name \<noteq> ''valueOf''" using O by fastforce
  have g: "toLowerCase name \<noteq> ''__defineGetter__''" using G by fastforce
  have h: "toLowerCase name \<noteq> ''__defineSetter__''" using S by fastforce
  have i: "toLowerCase name \<noteq> ''__lookupGetter__''" using G by fastforce
  have j: "toLowerCase name \<noteq> ''__lookupSetter__''" using S by fastforce
  from a b c d e f g h i j show ?thesis
    by (simp add: objectPrototypeKeys_def)
qed

lemma simulateWeatherAPI_fixture:
  "toLowerCase name \<in> set [''new york'', ''london'', ''tokyo''] \<Longrightarrow>
     \<exists>w. fst (simulateWeatherAPI name g) = WeatherData w"
  by (auto simp: simulateWeatherAPI_def split_def getProperty_def map_of_cities)

lemma simulateWeatherAPI_synthetic:
  assumes "toLowerCase name \<notin> set [''new york'', ''london'', ''tokyo'']"
    and "toLowerCase name \<notin> set objectPrototypeKeys"
  shows "\<exists>w. fst (simulateWeatherAPI name g) = WeatherData w \<and> city (current w) = name \<and>
           country (current w) = ''Unknown'' \<and> description (current w) = ''clear sky'' \<and>
           temperature (current w) = fst (randomInt 30 5 (snd (cities g)))"
  using assms
  by (simp add: simulateWeatherAPI_def split_def getProperty_def map_of_cities)

subsection \<open>Names that differ in case only\<close>

lemma lowerUnit_eq_lower:
  assumes "97 \<le> (of_char k :: nat)" and "(of_char k :: nat) \<le> 122"
  shows "lowerUnit c = k \<longleftrightarrow> c = k \<or> (of_char c :: nat) + 32 = of_char k"
proof -
  let ?n = "of_char c :: nat"
  show ?thesis
  proof (cases "(65 \<le> ?n \<and> ?n \<le> 90) \<or> (192 \<le> ?n \<and> ?n \<le> 222 \<and> ?n \<noteq> 215)")
    case True
    then have l: "lowerUnit c = char_of (?n + 32)" by (simp add: lowerUnit_def Let_def)
    have "(char_of (?n + 32) = k) = ((of_char (char_of (?n + 32) :: char) :: nat) = of_char k)"
      by (simp only: of_char_eq_iff)
    also have "\<dots> = ((?n + 32) mod 256 = of_char k)" by simp
    also have "\<dots> = (?n + 32 = of_char k)" using True by auto
    finally have a: "(lowerUnit c = k) = (?n + 32 = of_char k)" unfolding l .
    have "c \<noteq> k" using True assms by auto
    with a show ?thesis by simp
  next
    case False
    have l: "lowerUnit c = c"
      unfolding lowerUnit_def Let_def using False by (simp only: if_False)
    from False assms have "?n + 32 \<noteq> of_char k" by auto
    with l show ?thesis by simp
  qed
qed

lemma lowerUnit_l: "lowerUnit c = CHR ''l'' \<longleftrightarrow> c = CHR ''l'' \<or> c = CHR ''L''"
proof -
  have "((of_char c :: nat) = 76) = ((of_char c :: nat) = of_char (CHR ''L''))" by simp
  also have "\<dots> = (c = CHR ''L'')" by (simp only: of_char_eq_iff)
  finally show ?thesis using lowerUnit_eq_lower [of "CHR ''l''" c] by simp
qed

lemma lowerUnit_o: "lowerUnit c = CHR ''o'' \<longleftrightarrow> c = CHR ''o'' \<or> c = CHR ''O''"
proof -
  have "((of_char c :: nat) = 79) = ((of_char c :: nat) = of_char (CHR ''O''))" by simp
  also have "\<dots> = (c = CHR ''O'')" by (simp only: of_char_eq_iff)
  finally show ?thesis using lowerUnit_eq_lower [of "CHR ''o''" c] by simp
qed

lemma lowerUnit_n: "lowerUnit c = CHR ''n'' \<longleftrightarrow> c = CHR ''n'' \<or> c = CHR ''N''"
proof -
  have "((of_char c :: nat) = 78) = ((of_char c :: nat) = of_char (CHR ''N''))" by simp
  also have "\<dots> = (c = CHR ''N'')" by (simp only: of_char_eq_iff)
  finally show ?thesis using lowerUnit_eq_lower [of "CHR ''n''" c] by simp
qed

lemma lowerUnit_d: "lowerUnit c = CHR ''d'' \<longleftrightarrow> c = CHR ''d'' \<or> c = CHR ''D''"
proof -
  have "((of_char c :: nat) = 68) = ((of_char c :: nat) = of_char (CHR ''D''))" by simp
  also have "\<dots> = (c = CHR ''D'')" by (simp only: of_char_eq_iff)
  finally show ?thesis using lowerUnit_eq_lower [of "CHR ''d''" c] by simp
qed

lemma map_eq_six:
  "map f xs = [a1, a2, a3, a4, a5, a6] \<longleftrightarrow>
     (\<exists>c1 c2 c3 c4 c5 c6. xs = [c1, c2, c3, c4, c5, c6] \<and> f c1 = a1 \<and> f c2 = a2 \<and>
        f c3 = a3 \<and> f c4 = a4 \<and> f c5 = a5 \<and> f c6 = a6)"
proof
  assume m: "map f xs = [a1, a2, a3, a4, a5, a6]"
  then obtain c1 x1 where 1: "xs = c1 # x1" "f c1 = a1" "map f x1 = [a2, a3, a4, a5, a6]"
    by (cases xs) simp_all
  then obtain c2 x2 where 2: "x1 = c2 # x2" "f c2 = a2" "map f x2 = [a3, a4, a5, a6]"
    by (cases x1) simp_all
  then obtain c3 x3 where 3: "x2 = c3 # x3" "f c3 = a3" "map f x3 = [a4, a5, a6]"
    by (cases x2) simp_all
  then obtain c4 x4 where 4: "x3 = c4 # x4" "f c4 = a4" "map f x4 = [a5, a6]"
    by (cases x3) simp_all
  then obtain c5 x5 where 5: "x4 = c5 # x5" "f c5 = a5" "map f x5 = [a6]"
    by (cases x4) simp_all
  then obtain c6 where 6: "x5 = [c6]" "f c6 = a6"
    by (cases x5) simp_all
  from 1 2 3 4 5 6 have "xs = [c1, c2, c3, c4, c5, c6]" by simp
  with 1 2 3 4 5 6 show "\<exists>c1 c2 c3 c4 c5 c6. xs = [c1, c2, c3, c4, c5, c6] \<and> f c1 = a1 \<and>
      f c2 = a2 \<and> f c3 = a3 \<and> f c4 = a4 \<and> f c5 = a5 \<and> f c6 = a6"
    by blast
next
  assume "\<exists>c1 c2 c3 c4 c5 c6. xs = [c1, c2, c3, c4, c5, c6] \<and> f c1 = a1 \<and> f c2 = a2 \<and>
      f c3 = a3 \<and> f c4 = a4 \<and> f c5 = a5 \<and> f c6 = a6"
  then obtain c1 c2 c3 c4 c5 c6 where "xs = [c1, c2, c3, c4, c5, c6]" "f c1 = a1" "f c2 = a2"
    "f c3 = a3" "f c4 = a4" "f c5 = a5" "f c6 = a6" by blast
  then show "map f xs = [a1, a2, a3, a4, a5, a6]" by simp
qed

lemma lower_london_iff:
  "toLowerCase name = ''london'' \<longleftrightarrow>
     (\<exists>c1 c2 c3 c4 c5 c6. name = [c1, c2, c3, c4, c5, c6] \<and>
        (c1 = CHR ''l'' \<or> c1 = CHR ''L'') \<and> (c2 = CHR ''o'' \<or> c2 = CHR ''O'') \<and>
        (c3 = CHR ''n'' \<or> c3 = CHR ''N'') \<and> (c4 = CHR ''d'' \<or> c4 = CHR ''D'') \<and>
        (c5 = CHR ''o'' \<or> c5 = CHR ''O'') \<and> (c6 = CHR ''n'' \<or> c6 = CHR ''N''))"
  unfolding toLowerCase_def
  by (simp only: map_eq_six lowerUnit_l lowerUnit_o lowerUnit_n lowerUnit_d)

lemma simulateWeatherAPI_same_key:
  assumes "toLowerCase a = toLowerCase b"
    and "toLowerCase a \<in> set (map fst (fst (cities g)))"
  shows "simulateWeatherAPI a g = simulateWeatherAPI b g"
proof -
  from assms(2) have "truthy (getProperty (fst (cities g)) (toLowerCase a))"
    by (auto simp: getProperty_def map_of_cities cities_def split_def)
  with assms(1) show ?thesis
    by (simp add: simulateWeatherAPI_def split_def Let_def)
qed

lemma lower_lOnDoN: "toLowerCase ''lOnDoN'' = ''london''"
  by code_simp

lemma lower_TOKYO: "toLowerCase ''TOKYO'' = ''tokyo''"
  by code_simp

lemma lower_tokyo: "toLowerCase ''tokyo'' = ''tokyo''"
  by code_simp

lemma cities_keys: "map fst (fst (cities g)) = [''new york'', ''london'', ''tokyo'']"
  by (simp add: cities_def split_def)

section \<open>The claims\<close>

text \<open>
  Claim C1. When the text of the search input trims to the empty string (the input is
  empty or holds white space only), the search operation shows the message
  \<open>Please enter a city name\<close> and ends there: nothing is pending afterwards, so no
  fetch was started, the random source is untouched, and the loading indicator is as it
  was.
\<close>

theorem searchWeather_blank:
  "(trim (cityInput_value p) = []) = (\<forall>c\<in>set (cityInput_value p). isWhiteSpace c) \<and>
   (trim (cityInput_value p) = [] \<longrightarrow>
      searchWeather p = (showError ''Please enter a city name'' p, None) \<and>
      searchByName today g p = (showError ''Please enter a city name'' p, g) \<and>
      errorMessage (fst (searchWeather p)) = ''Please enter a city name'' \<and>
      \<not> error_hidden (fst (searchWeather p)) \<and>
      loading_hidden (fst (searchWeather p)) = loading_hidden p)"
  by (simp add: searchWeather_def searchByName_def showError_def trim_empty_iff)

text \<open>The input of a space, a tab and a no-break space.\<close>

theorem searchWeather_blank_witness:
  "trim (cityInput_value (examplePage\<lparr>cityInput_value := [CHR 0x20, CHR 0x09, CHR 0xA0]\<rparr>)) = [] \<and>
   searchWeather (examplePage\<lparr>cityInput_value := [CHR 0x20, CHR 0x09, CHR 0xA0]\<rparr>) =
     (showError ''Please enter a city name''
        (examplePage\<lparr>cityInput_value := [CHR 0x20, CHR 0x09, CHR 0xA0]\<rparr>), None) \<and>
   searchByName ''Monday'' exampleDraws
       (examplePage\<lparr>cityInput_value := [CHR 0x20, CHR 0x09, CHR 0xA0]\<rparr>) =
     (showError ''Please enter a city name''
        (examplePage\<lparr>cityInput_value := [CHR 0x20, CHR 0x09, CHR 0xA0]\<rparr>), exampleDraws)"
proof -
  have h: "trim (cityInput_value (examplePage\<lparr>cityInput_value := [CHR 0x20, CHR 0x09, CHR 0xA0]\<rparr>)) = []"
    by (simp add: trim_def isWhiteSpace_def)
  from searchWeather_blank
    [of "examplePage\<lparr>cityInput_value := [CHR 0x20, CHR 0x09, CHR 0xA0]\<rparr>" "''Monday''" exampleDraws] h
  show ?thesis by blast
qed

text \<open>
  Claim C2. Every forecast the generator produces has five entries whose day labels are
  Today, Tomorrow, Day 3, Day 4, Day 5 in this order; so has every forecast that a fetch
  resolves with. Rendering a forecast leaves exactly its items in the container,
  whatever the container held, and a forecast region that is visible after a fetch has
  settled holds five items with these labels.
\<close>

theorem forecast_five_days:
  "days = [''Today'', ''Tomorrow'', ''Day 3'', ''Day 4'', ''Day 5''] \<and>
   map day (fst (generateMockForecast g)) = days \<and>
   length (fst (generateMockForecast g)) = 5 \<and>
   (\<forall>f. forecastOf (fst (simulateWeatherAPI name g)) = Some f \<longrightarrow> map day f = days) \<and>
   (\<forall>f. forecastOf (fst (simulateWeatherAPIByCoords lat lon g)) = Some f \<longrightarrow>
          map day f = days) \<and>
   forecastContainer (snd (displayForecast (Some forecastData) p)) = forecastData \<and>
   (\<not> forecast_hidden (fst (getWeatherData_settle today name g (showLoading p))) \<longrightarrow>
      map day (forecastContainer (fst (getWeatherData_settle today name g (showLoading p))))
        = days) \<and>
   (\<not> forecast_hidden (fst (getWeatherByCoords_settle today lat lon g (showLoading p))) \<and>
      map day (forecastContainer (fst (getWeatherByCoords_settle today lat lon g (showLoading p))))
        = days)"
proof -
  have d: "map day (fst (generateMockForecast g)) = days"
    by (rule generateMockForecast_days)
  have l: "length (fst (generateMockForecast g)) = 5"
    using arg_cong [OF d, of length] by (simp add: days_def)
  have n: "\<forall>f. forecastOf (fst (simulateWeatherAPI name g)) = Some f \<longrightarrow> map day f = days"
    by (blast intro: forecastOf_simulateWeatherAPI)
  have c: "\<forall>f. forecastOf (fst (simulateWeatherAPIByCoords lat lon g)) = Some f \<longrightarrow>
          map day f = days"
    by (simp add: simulateWeatherAPIByCoords_eq generateMockForecast_days)
  have r: "forecastContainer (snd (displayForecast (Some forecastData) p)) = forecastData"
    by (simp add: foldl_appendChild)
  have sn: "\<not> forecast_hidden (fst (getWeatherData_settle today name g (showLoading p))) \<longrightarrow>
      map day (forecastContainer (fst (getWeatherData_settle today name g (showLoading p))))
        = days"
  proof (cases "fst (simulateWeatherAPI name g)")
    case Undefined
    then show ?thesis
      by (simp add: getWeatherData_settle_def tryDisplay_def split_def showError_def)
  next
    case (WeatherData w)
    with n have "map day (forecast w) = days" by simp
    with WeatherData show ?thesis
      by (simp add: getWeatherData_settle_def tryDisplay_def split_def foldl_appendChild
          hideLoading_def)
  next
    case (Inherited k)
    then show ?thesis
      by (simp add: getWeatherData_settle_def tryDisplay_def split_def showError_def)
  qed
  have sc: "\<not> forecast_hidden (fst (getWeatherByCoords_settle today lat lon g (showLoading p))) \<and>
      map day (forecastContainer (fst (getWeatherByCoords_settle today lat lon g (showLoading p))))
        = days"
    by (simp add: getWeatherByCoords_settle_def simulateWeatherAPIByCoords_eq tryDisplay_def
        foldl_appendChild hideLoading_def generateMockForecast_days)
  from d l n c r sn sc show ?thesis by (simp add: days_def)
qed

text \<open>A search for Paris on the example page.\<close>

theorem forecast_five_days_witness:
  "forecastOf (fst (simulateWeatherAPI ''Paris'' exampleDraws)) \<noteq> None \<and>
   \<not> forecast_hidden
       (fst (getWeatherData_settle ''Monday'' ''Paris'' exampleDraws (showLoading examplePage))) \<and>
   map day (forecastContainer
       (fst (getWeatherData_settle ''Monday'' ''Paris'' exampleDraws (showLoading examplePage))))
     = [''Today'', ''Tomorrow'', ''Day 3'', ''Day 4'', ''Day 5'']"
proof -
  have h1: "forecastOf (fst (simulateWeatherAPI ''Paris'' exampleDraws)) \<noteq> None"
    by code_simp
  have h2: "\<not> forecast_hidden
       (fst (getWeatherData_settle ''Monday'' ''Paris'' exampleDraws (showLoading examplePage)))"
    by code_simp
  from forecast_five_days [of exampleDraws "''Paris''" 0 0 "[]" examplePage "''Monday''"] h1 h2
  show ?thesis by simp
qed

text \<open>
  Claim C3. A name search produces a report with the typed name as its city unless the
  lowercased name is a key of a fixture. The code does not do this for the name
  \<open>constructor\<close>: the name is not empty and is the key of no fixture, the search starts
  a fetch for it, and the search ends with the message \<open>City not found\<close> in a visible
  error region, the current-conditions region hidden and the city name element as it
  was before.
\<close>

theorem name_search_constructor:
  "trim ''constructor'' = ''constructor'' \<and>
   toLowerCase ''constructor'' \<notin> set (map fst (fst (cities g))) \<and>
   searchWeather (p\<lparr>cityInput_value := ''constructor''\<rparr>) =
     (showLoading (p\<lparr>cityInput_value := ''constructor''\<rparr>), Some (NameFetch ''constructor'')) \<and>
   fst (searchByName today g (p\<lparr>cityInput_value := ''constructor''\<rparr>)) =
     showError ''City not found. Please check the spelling and try again.''
       (hideLoading (showLoading (p\<lparr>cityInput_value := ''constructor''\<rparr>))) \<and>
   el_cityName (fst (searchByName today g (p\<lparr>cityInput_value := ''constructor''\<rparr>)))
     = el_cityName p \<and>
   currentWeather_hidden (fst (searchByName today g (p\<lparr>cityInput_value := ''constructor''\<rparr>))) \<and>
   \<not> error_hidden (fst (searchByName today g (p\<lparr>cityInput_value := ''constructor''\<rparr>)))"
proof -
  have k: "toLowerCase ''constructor'' \<notin> set (map fst (fst (cities g)))"
    by (simp add: lower_constructor cities_def split_def)
  have s: "searchWeather (p\<lparr>cityInput_value := ''constructor''\<rparr>) =
      (showLoading (p\<lparr>cityInput_value := ''constructor''\<rparr>), Some (NameFetch ''constructor''))"
    by (simp add: searchWeather_def Let_def trim_constructor getWeatherData_def)
  have e: "fst (searchByName today g (p\<lparr>cityInput_value := ''constructor''\<rparr>)) =
      showError ''City not found. Please check the spelling and try again.''
        (hideLoading (showLoading (p\<lparr>cityInput_value := ''constructor''\<rparr>)))"
    by (simp add: searchByName_def s getWeatherData_settle_def simulateWeatherAPI_inherited
        lower_constructor objectPrototypeKeys_def tryDisplay_def)
  show ?thesis
    unfolding e using k s
    by (simp add: trim_constructor showError_def hideLoading_def showLoading_def)
qed

text \<open>
  Claim C4. The fixture lookup does not depend on the case of the name. Two names with
  the same lowercase form, that form being the key of a fixture, get the same result of
  the fetch. The names whose lowercase form is \<open>london\<close> are the 64 spellings of the six
  letters in either case, and each of them gets the London fixture; so do LONDON, London
  and london, with temperature 15, description \<open>light rain\<close> and country UK.
\<close>

theorem fixture_lookup_ignores_case:
  "(toLowerCase a = toLowerCase b \<longrightarrow> toLowerCase a \<in> set (map fst (fst (cities g))) \<longrightarrow>
      simulateWeatherAPI a g = simulateWeatherAPI b g) \<and>
   map fst (fst (cities g)) = [''new york'', ''london'', ''tokyo''] \<and>
   ((toLowerCase name = ''london'') =
      (\<exists>c1 c2 c3 c4 c5 c6. name = [c1, c2, c3, c4, c5, c6] \<and>
         (c1 = CHR ''l'' \<or> c1 = CHR ''L'') \<and> (c2 = CHR ''o'' \<or> c2 = CHR ''O'') \<and>
         (c3 = CHR ''n'' \<or> c3 = CHR ''N'') \<and> (c4 = CHR ''d'' \<or> c4 = CHR ''D'') \<and>
         (c5 = CHR ''o'' \<or> c5 = CHR ''O'') \<and> (c6 = CHR ''n'' \<or> c6 = CHR ''N''))) \<and>
   (toLowerCase name = ''london'' \<longrightarrow>
      simulateWeatherAPI name g = simulateWeatherAPI ''london'' g \<and>
      currentOf (fst (simulateWeatherAPI name g)) = Some londonCurrent) \<and>
   simulateWeatherAPI ''LONDON'' g = simulateWeatherAPI ''london'' g \<and>
   simulateWeatherAPI ''London'' g = simulateWeatherAPI ''london'' g \<and>
   currentOf (fst (simulateWeatherAPI ''LONDON'' g)) = Some londonCurrent \<and>
   currentOf (fst (simulateWeatherAPI ''London'' g)) = Some londonCurrent \<and>
   currentOf (fst (simulateWeatherAPI ''london'' g)) = Some londonCurrent \<and>
   temperature londonCurrent = 15 \<and>
   description londonCurrent = ''light rain'' \<and>
   country londonCurrent = ''UK''"
proof -
  have s: "toLowerCase a = toLowerCase b \<longrightarrow> toLowerCase a \<in> set (map fst (fst (cities g))) \<longrightarrow>
      simulateWeatherAPI a g = simulateWeatherAPI b g"
    by (blast intro: simulateWeatherAPI_same_key)
  have l: "toLowerCase name = ''london'' \<longrightarrow>
      simulateWeatherAPI name g = simulateWeatherAPI ''london'' g \<and>
      currentOf (fst (simulateWeatherAPI name g)) = Some londonCurrent"
    by (simp add: simulateWeatherAPI_london lower_london)
  have i: "simulateWeatherAPI ''LONDON'' g = simulateWeatherAPI ''london'' g \<and>
      simulateWeatherAPI ''London'' g = simulateWeatherAPI ''london'' g \<and>
      currentOf (fst (simulateWeatherAPI ''LONDON'' g)) = Some londonCurrent \<and>
      currentOf (fst (simulateWeatherAPI ''London'' g)) = Some londonCurrent \<and>
      currentOf (fst (simulateWeatherAPI ''london'' g)) = Some londonCurrent"
    by (simp add: simulateWeatherAPI_london lower_LONDON lower_London lower_london)
  have v: "temperature londonCurrent = 15 \<and> description londonCurrent = ''light rain'' \<and>
      country londonCurrent = ''UK''"
    by (simp add: londonCurrent_def)
  from s cities_keys [of g] lower_london_iff [of name] l i v show ?thesis by blast
qed

text \<open>The spelling lOnDoN, and TOKYO beside tokyo.\<close>

theorem fixture_lookup_ignores_case_witness:
  "toLowerCase ''lOnDoN'' = ''london'' \<and>
   map_option temperature (currentOf (fst (simulateWeatherAPI ''lOnDoN'' exampleDraws))) = Some 15 \<and>
   map_option description (currentOf (fst (simulateWeatherAPI ''lOnDoN'' exampleDraws)))
     = Some ''light rain'' \<and>
   map_option country (currentOf (fst (simulateWeatherAPI ''lOnDoN'' exampleDraws))) = Some ''UK'' \<and>
   toLowerCase ''TOKYO'' = toLowerCase ''tokyo'' \<and>
   simulateWeatherAPI ''TOKYO'' exampleDraws = simulateWeatherAPI ''tokyo'' exampleDraws"
proof -
  have k: "toLowerCase ''TOKYO'' \<in> set (map fst (fst (cities exampleDraws)))"
    by (simp add: lower_TOKYO cities_keys)
  have e: "toLowerCase ''TOKYO'' = toLowerCase ''tokyo''"
    by (simp add: lower_TOKYO lower_tokyo)
  note T = fixture_lookup_ignores_case [of "''TOKYO''" "''tokyo''" exampleDraws "''lOnDoN''"]
  have t: "simulateWeatherAPI ''TOKYO'' exampleDraws = simulateWeatherAPI ''tokyo'' exampleDraws"
    using T e k by blast
  have c: "currentOf (fst (simulateWeatherAPI ''lOnDoN'' exampleDraws)) = Some londonCurrent"
    using T lower_lOnDoN by blast
  from t c e lower_lOnDoN show ?thesis by (simp add: londonCurrent_def)
qed

text \<open>
  Claim C5. A fetch for a name that matches no fixture returns synthesized current
  conditions. The code does not do this for the name \<open>constructor\<close>: \<open>cities\<close> has no
  own property of this name, yet the property read finds the one that every object
  inherits, the fetch resolves with that value, and the value has neither current
  conditions nor a forecast.
\<close>

theorem fetch_constructor_no_conditions:
  "map_of (fst (cities g)) (toLowerCase ''constructor'') = None \<and>
   simulateWeatherAPI ''constructor'' g = (Inherited ''constructor'', snd (cities g)) \<and>
   currentOf (fst (simulateWeatherAPI ''constructor'' g)) = None \<and>
   forecastOf (fst (simulateWeatherAPI ''constructor'' g)) = None"
  by (simp add: simulateWeatherAPI_inherited lower_constructor objectPrototypeKeys_def
      map_of_cities)

text \<open>
  Claim C6. For the position (40.7, -74.0) the fetch by coordinates resolves with current
  conditions whose city is \<open>Your Location\<close>, and a location search that gets this
  position ends with \<open>Your Location\<close> as the text of the city name element (the country
  is empty, so nothing follows the name), in a visible current-conditions region.
\<close>

theorem coords_label_rendered:
  "map_option city (currentOf (fst (simulateWeatherAPIByCoords (407 / 10) (- 74) g)))
     = Some ''Your Location'' \<and>
   getCurrentLocation True p = (showLoading p, Some PositionRequest) \<and>
   getCurrentLocation_settle (Position (407 / 10) (- 74)) (showLoading p)
     = (showLoading (showLoading p), Some (CoordsFetch (407 / 10) (- 74))) \<and>
   el_cityName (fst (searchByLocation today True (Position (407 / 10) (- 74)) g p))
     = ''Your Location'' \<and>
   \<not> currentWeather_hidden (fst (searchByLocation today True (Position (407 / 10) (- 74)) g p)) \<and>
   error_hidden (fst (searchByLocation today True (Position (407 / 10) (- 74)) g p))"
  by (simp add: simulateWeatherAPIByCoords_eq getCurrentLocation_def getWeatherByCoords_def
      searchByLocation_def getWeatherByCoords_settle_def tryDisplay_def foldl_appendChild
      hideLoading_def showLoading_def)

text \<open>The location search on the example page.\<close>

theorem coords_label_rendered_witness:
  "el_cityName (fst (searchByLocation ''Monday'' True (Position (407 / 10) (- 74)) exampleDraws
      examplePage)) = ''Your Location''"
  using coords_label_rendered [of exampleDraws examplePage "''Monday''"] by simp

text \<open>
  Against claim C7 as it is stated: a search for Paris starts a fetch; while the fetch is
  pending a search with an empty input shows the validation message; when the fetch
  settles, the current conditions, the forecast and the error are all visible. Nothing
  in the program keeps an operation from running while a fetch is pending, and the
  success path does not hide the error region.
\<close>

theorem blank_search_while_pending:
  "snd (searchWeather (examplePage\<lparr>cityInput_value := ''Paris''\<rparr>)) = Some (NameFetch ''Paris'') \<and>
   snd (searchWeather (parisPending\<lparr>cityInput_value := []\<rparr>)) = None \<and>
   \<not> currentWeather_hidden
       (fst (getWeatherData_settle ''Monday'' ''Paris'' exampleDraws blankWhilePending)) \<and>
   \<not> forecast_hidden
       (fst (getWeatherData_settle ''Monday'' ''Paris'' exampleDraws blankWhilePending)) \<and>
   \<not> error_hidden
       (fst (getWeatherData_settle ''Monday'' ''Paris'' exampleDraws blankWhilePending))"
  by code_simp

text \<open>
  Claim C7, amended. Both fetch operations begin with \<open>showLoading\<close>, which shows the
  loading indicator and hides the error region, the current-conditions region and the
  forecast region. When a fetch settles on a page whose error region is hidden, as it is
  when nothing has shown an error since the fetch began, then afterwards either both
  content regions are visible and the error region is hidden, or the error region is
  visible and both content regions are hidden.
\<close>

theorem settle_one_outcome:
  "fst (getWeatherData name p) = showLoading p \<and>
   fst (getWeatherByCoords lat lon p) = showLoading p \<and>
   \<not> loading_hidden (showLoading p) \<and> error_hidden (showLoading p) \<and>
   currentWeather_hidden (showLoading p) \<and> forecast_hidden (showLoading p) \<and>
   (error_hidden q \<longrightarrow>
     (\<not> currentWeather_hidden (fst (getWeatherData_settle today name g q)) \<and>
      \<not> forecast_hidden (fst (getWeatherData_settle today name g q)) \<and>
      error_hidden (fst (getWeatherData_settle today name g q)))
     \<or>
     (currentWeather_hidden (fst (getWeatherData_settle today name g q)) \<and>
      forecast_hidden (fst (getWeatherData_settle today name g q)) \<and>
      \<not> error_hidden (fst (getWeatherData_settle today name g q)))) \<and>
   (error_hidden q \<longrightarrow>
     (\<not> currentWeather_hidden (fst (getWeatherByCoords_settle today lat lon g q)) \<and>
      \<not> forecast_hidden (fst (getWeatherByCoords_settle today lat lon g q)) \<and>
      error_hidden (fst (getWeatherByCoords_settle today lat lon g q)))
     \<or>
     (currentWeather_hidden (fst (getWeatherByCoords_settle today lat lon g q)) \<and>
      forecast_hidden (fst (getWeatherByCoords_settle today lat lon g q)) \<and>
      \<not> error_hidden (fst (getWeatherByCoords_settle today lat lon g q))))"
proof -
  have a: "fst (getWeatherData name p) = showLoading p \<and>
      fst (getWeatherByCoords lat lon p) = showLoading p"
    by (simp add: getWeatherData_def getWeatherByCoords_def)
  have b: "\<not> loading_hidden (showLoading p) \<and> error_hidden (showLoading p) \<and>
      currentWeather_hidden (showLoading p) \<and> forecast_hidden (showLoading p)"
    by (simp add: showLoading_def)
  have r: "(\<not> currentWeather_hidden (tryDisplay message today v q) \<and>
       \<not> forecast_hidden (tryDisplay message today v q) \<and>
       error_hidden (tryDisplay message today v q))
      \<or>
      (currentWeather_hidden (tryDisplay message today v q) \<and>
       forecast_hidden (tryDisplay message today v q) \<and>
       \<not> error_hidden (tryDisplay message today v q))" if "error_hidden q" for message v
    using that
    by (cases v)
      (simp_all add: tryDisplay_def foldl_appendChild hideLoading_def showError_def)
  have n: "fst (getWeatherData_settle today name g q) =
      tryDisplay ''City not found. Please check the spelling and try again.'' today
        (fst (simulateWeatherAPI name g)) q"
    by (simp add: getWeatherData_settle_def split_def)
  have c: "fst (getWeatherByCoords_settle today lat lon g q) =
      tryDisplay ''Unable to fetch weather data for your location.'' today
        (fst (simulateWeatherAPIByCoords lat lon g)) q"
    by (simp add: getWeatherByCoords_settle_def split_def)
  from a b r [of "''City not found. Please check the spelling and try again.''"
      "fst (simulateWeatherAPI name g)"]
    r [of "''Unable to fetch weather data for your location.''"
      "fst (simulateWeatherAPIByCoords lat lon g)"]
  show ?thesis unfolding n c by blast
qed

text \<open>The search for Paris, settling with nothing in between.\<close>

theorem settle_one_outcome_witness:
  "error_hidden parisPending \<and>
   \<not> currentWeather_hidden
       (fst (getWeatherData_settle ''Monday'' ''Paris'' exampleDraws parisPending)) \<and>
   \<not> forecast_hidden
       (fst (getWeatherData_settle ''Monday'' ''Paris'' exampleDraws parisPending)) \<and>
   error_hidden
       (fst (getWeatherData_settle ''Monday'' ''Paris'' exampleDraws parisPending))"
proof -
  have h: "error_hidden parisPending" by code_simp
  have v: "\<not> currentWeather_hidden
       (fst (getWeatherData_settle ''Monday'' ''Paris'' exampleDraws parisPending))"
    by code_simp
  from settle_one_outcome [of "''Paris''" examplePage 0 0 parisPending "''Monday''" exampleDraws]
    h v
  show ?thesis by blast
qed

text \<open>
  Claim C8. The catch branch of the fetch by name, which shows \<open>City not found\<close>, is
  never reached. The code reaches it for the names \<open>constructor\<close> and \<open>__proto__\<close>: the
  fetch resolves, rendering what it resolved with throws inside the \<open>try\<close> block, and
  the page ends as the catch branch leaves it.
\<close>

theorem catch_branch_reached:
  "fst (getWeatherData_settle today ''constructor'' g (showLoading p)) =
     showError ''City not found. Please check the spelling and try again.''
       (hideLoading (showLoading p)) \<and>
   errorMessage (fst (getWeatherData_settle today ''constructor'' g (showLoading p))) =
     ''City not found. Please check the spelling and try again.'' \<and>
   \<not> error_hidden (fst (getWeatherData_settle today ''constructor'' g (showLoading p))) \<and>
   errorMessage (fst (getWeatherData_settle today ''__proto__'' g (showLoading p))) =
     ''City not found. Please check the spelling and try again.''"
  by (simp add: getWeatherData_settle_def simulateWeatherAPI_inherited lower_constructor
      lower___proto__ objectPrototypeKeys_def tryDisplay_def showError_def)

text \<open>
  Claim C9. When every draw of the random source is a double in the interval from 0
  (included) to 1 (excluded), as \<open>Math.random\<close> promises, every entry of a generated
  forecast has its high between 20 and 34 and its low between 10 and 19, so the low is
  below the high; the products are rounded as doubles before the floor is taken. The
  same holds of the forecast in the result of either fetch.
\<close>

theorem forecast_high_above_low:
  assumes "unitDraws g"
  shows "(\<forall>e\<in>set (fst (generateMockForecast g)).
            20 \<le> high e \<and> high e \<le> 34 \<and> 10 \<le> low e \<and> low e \<le> 19 \<and> low e < high e) \<and>
         (\<forall>f. forecastOf (fst (simulateWeatherAPI name g)) = Some f \<longrightarrow>
            (\<forall>e\<in>set f. low e < high e)) \<and>
         (\<forall>f. forecastOf (fst (simulateWeatherAPIByCoords lat lon g)) = Some f \<longrightarrow>
            (\<forall>e\<in>set f. low e < high e))"
proof -
  have a: "20 \<le> high e \<and> high e \<le> 34 \<and> 10 \<le> low e \<and> low e \<le> 19 \<and> low e < high e"
    if "e \<in> set (fst (generateMockForecast g))" for e
    using generateMockForecast_bounds [OF assms that] by simp
  have b: "low e < high e"
    if "forecastOf (fst (simulateWeatherAPI name g)) = Some f" and "e \<in> set f" for f e
    using forecastOf_simulateWeatherAPI_bounds [OF assms that] by simp
  have c: "low e < high e"
    if "forecastOf (fst (simulateWeatherAPIByCoords lat lon g)) = Some f" and "e \<in> set f" for f e
    using that a [of e] by (simp add: simulateWeatherAPIByCoords_eq)
  from a b c show ?thesis by blast
qed

text \<open>
  The five entries drawn from the example source, and a source whose draws round up in
  the product: the exact product with 15 has floor 7, the double product is 8, so the
  high is 28; the bounds hold there too.
\<close>

theorem forecast_high_above_low_witness:
  "unitDraws exampleDraws \<and>
   map (\<lambda>e. (high e, low e)) (fst (generateMockForecast exampleDraws))
     = [(20, 12), (27, 17), (20, 12), (27, 17), (20, 12)] \<and>
   list_all (\<lambda>e. 20 \<le> high e \<and> high e \<le> 34 \<and> 10 \<le> low e \<and> low e \<le> 19 \<and> low e < high e)
     (fst (generateMockForecast exampleDraws)) \<and>
   unitDraws roundingDraws \<and>
   \<lfloor>(15::rat) * roundingDraws 0\<rfloor> = 7 \<and>
   fst (randomInt 15 20 roundingDraws) = 28 \<and>
   list_all (\<lambda>e. 20 \<le> high e \<and> high e \<le> 34 \<and> 10 \<le> low e \<and> low e \<le> 19 \<and> low e < high e)
     (fst (generateMockForecast roundingDraws))"
proof -
  have h: "unitDraws exampleDraws"
    by (rule unitDraws_exampleDraws)
  have v: "map (\<lambda>e. (high e, low e)) (fst (generateMockForecast exampleDraws))
     = [(20, 12), (27, 17), (20, 12), (27, 17), (20, 12)]"
    by code_simp
  have h': "unitDraws roundingDraws"
    by (rule unitDraws_roundingDraws)
  have x: "\<lfloor>(15::rat) * roundingDraws 0\<rfloor> = 7"
    by code_simp
  have y: "fst (randomInt 15 20 roundingDraws) = 28"
    by code_simp
  from forecast_high_above_low [OF h, of "''Paris''" 0 0]
    forecast_high_above_low [OF h', of "''Paris''" 0 0] h h' v x y show ?thesis
    by (simp add: list_all_iff)
qed

text \<open>
  Claim C10. The fetch by coordinates does not look at the coordinates: the current
  conditions are the same record for any two positions and any two states of the random
  source, and with the same random source the whole result is the same.
\<close>

theorem coords_ignored:
  "currentOf (fst (simulateWeatherAPIByCoords lat1 lon1 g1)) =
     currentOf (fst (simulateWeatherAPIByCoords lat2 lon2 g2)) \<and>
   currentOf (fst (simulateWeatherAPIByCoords lat1 lon1 g1)) =
     Some \<lparr>city = ''Your Location'', country = '''', temperature = 20, feelsLike = 22,
           description = ''clear sky'', humidity = 60, windSpeed = 10, pressure = 1015,
           visibility = 12, uvIndex = 5, cloudiness = 20, icon = ''fas fa-sun''\<rparr> \<and>
   simulateWeatherAPIByCoords lat1 lon1 g1 = simulateWeatherAPIByCoords lat2 lon2 g1"
  by (simp add: simulateWeatherAPIByCoords_eq)

text \<open>Two positions and two random sources.\<close>

theorem coords_ignored_witness:
  "currentOf (fst (simulateWeatherAPIByCoords (407 / 10) (- 74) exampleDraws)) =
     currentOf (fst (simulateWeatherAPIByCoords 0 90 (\<lambda>i. 0)))"
  using coords_ignored [of "407 / 10" "- 74" exampleDraws 0 90 "\<lambda>i. 0"] by blast

section \<open>Further properties of the fetch by name\<close>

text \<open>
  A name whose lowercase form is the key of a fixture gets the current conditions of that
  fixture, whatever its case.
\<close>

theorem fixture_name_canonical:
  "(toLowerCase name = ''new york'' \<longrightarrow>
      currentOf (fst (simulateWeatherAPI name g)) = Some newYorkCurrent) \<and>
   (toLowerCase name = ''london'' \<longrightarrow>
      currentOf (fst (simulateWeatherAPI name g)) = Some londonCurrent) \<and>
   (toLowerCase name = ''tokyo'' \<longrightarrow>
      currentOf (fst (simulateWeatherAPI name g)) = Some tokyoCurrent)"
  by (simp add: simulateWeatherAPI_def split_def getProperty_def map_of_cities)

text \<open>The name TOKYO.\<close>

theorem fixture_name_canonical_witness:
  "toLowerCase ''TOKYO'' = ''tokyo'' \<and>
   map_option city (currentOf (fst (simulateWeatherAPI ''TOKYO'' exampleDraws))) = Some ''Tokyo'' \<and>
   map_option country (currentOf (fst (simulateWeatherAPI ''TOKYO'' exampleDraws))) = Some ''JP''"
proof -
  have l: "toLowerCase ''TOKYO'' = ''tokyo''" by code_simp
  from fixture_name_canonical [of "''TOKYO''" exampleDraws] l show ?thesis
    by (simp add: tokyoCurrent_def)
qed

text \<open>
  A name whose lowercase form is neither the key of a fixture nor \<open>constructor\<close> nor
  \<open>__proto__\<close> gets synthesized current conditions: the city is the name as typed, the
  country is \<open>Unknown\<close>, the description is \<open>clear sky\<close>, and the temperature is between 5
  and 34 when the draws of the random source are in the unit interval.
\<close>

theorem unknown_name_synthesized:
  assumes "toLowerCase name \<notin> set [''new york'', ''london'', ''tokyo'']"
    and "toLowerCase name \<noteq> ''constructor''" and "toLowerCase name \<noteq> ''__proto__''"
    and "unitDraws g"
  shows "\<exists>w. fst (simulateWeatherAPI name g) = WeatherData w \<and> city (current w) = name \<and>
           country (current w) = ''Unknown'' \<and> 5 \<le> temperature (current w) \<and>
           temperature (current w) \<le> 34 \<and> description (current w) = ''clear sky''"
proof -
  from assms(2,3) have "toLowerCase name \<notin> set objectPrototypeKeys"
    by (simp add: inherited_keys_reachable)
  from simulateWeatherAPI_synthetic [OF assms(1) this, of g]
  obtain w where w: "fst (simulateWeatherAPI name g) = WeatherData w" "city (current w) = name"
    "country (current w) = ''Unknown''" "description (current w) = ''clear sky''"
    "temperature (current w) = fst (randomInt 30 5 (snd (cities g)))"
    by blast
  from assms(4) have "unitDraws (snd (cities g))" by (rule unitDraws_cities)
  then have "5 \<le> fst (randomInt 30 5 (snd (cities g))) \<and>
      fst (randomInt 30 5 (snd (cities g))) < 5 + 30"
    by (intro randomInt_bounds) simp_all
  with w show ?thesis by simp
qed

text \<open>The name Paris with the example source.\<close>

theorem unknown_name_synthesized_witness:
  "fst (simulateWeatherAPI ''Paris'' exampleDraws) \<noteq> Undefined \<and>
   map_option city (currentOf (fst (simulateWeatherAPI ''Paris'' exampleDraws))) = Some ''Paris'' \<and>
   map_option temperature (currentOf (fst (simulateWeatherAPI ''Paris'' exampleDraws))) = Some 20"
proof -
  have l: "toLowerCase ''Paris'' = ''paris''" by code_simp
  have u: "unitDraws exampleDraws" by (rule unitDraws_exampleDraws)
  have t: "map_option temperature (currentOf (fst (simulateWeatherAPI ''Paris'' exampleDraws))) = Some 20"
    by code_simp
  from unknown_name_synthesized [of "''Paris''" exampleDraws] l u t show ?thesis by auto
qed

text \<open>
  After a fetch by name that began with \<open>showLoading\<close>, the error region is visible
  exactly when the lowercase form of the name is \<open>constructor\<close> or \<open>__proto__\<close>: the other
  property names of \<open>Object.prototype\<close> have a capital letter, which no lowercased name
  has.
\<close>

theorem catch_reached_iff:
  "(\<not> error_hidden (fst (getWeatherData_settle today name g (showLoading p)))) =
     (toLowerCase name = ''constructor'' \<or> toLowerCase name = ''__proto__'')"
proof (cases "toLowerCase name \<in> set objectPrototypeKeys")
  case True
  then have "\<not> error_hidden (fst (getWeatherData_settle today name g (showLoading p)))"
    by (simp add: getWeatherData_settle_def simulateWeatherAPI_inherited tryDisplay_def showError_def)
  with True show ?thesis by (simp add: inherited_keys_reachable)
next
  case False
  have "\<exists>w. fst (simulateWeatherAPI name g) = WeatherData w"
  proof (cases "toLowerCase name \<in> set [''new york'', ''london'', ''tokyo'']")
    case True
    then show ?thesis by (rule simulateWeatherAPI_fixture)
  next
    case n: False
    from simulateWeatherAPI_synthetic [OF n False] show ?thesis by blast
  qed
  then obtain w where "fst (simulateWeatherAPI name g) = WeatherData w" ..
  then have "error_hidden (fst (getWeatherData_settle today name g (showLoading p)))"
    by (simp add: getWeatherData_settle_def split_def tryDisplay_def foldl_appendChild
        hideLoading_def showLoading_def)
  with False show ?thesis by (simp add: inherited_keys_reachable)
qed

end
